theory Spec2Isabelle
  imports Main
begin

section \<open>The provider's configure cycle (internal/provider/provider.go)\<close>

text \<open>
  The development embeds \<^verbatim>\<open>(*MatrixProvider).Configure\<close> and states the properties
  of its configuration resolution, its two validation passes, its logging context and the
  hand-out of the client. The function mutates the response it is given and calls three
  outside collaborators (the diagnostics of the plugin framework, the structured logger and
  the client constructor of gomatrix); the model passes the response explicitly and returns,
  beside the response, the list of the calls the run made to the logger and to the client
  constructor, in program order.
\<close>

subsection \<open>Configuration values\<close>

text \<open>
  A \<^verbatim>\<open>types.String\<close> of the plugin framework is unknown, null or a known string.
  \<^verbatim>\<open>ValueString\<close> returns the empty string for the first two states.
\<close>

datatype tf_string = StringUnknown | StringNull | StringValue string

fun IsUnknown :: "tf_string \<Rightarrow> bool" where
  "IsUnknown StringUnknown = True"
| "IsUnknown StringNull = False"
| "IsUnknown (StringValue s) = False"

fun IsNull :: "tf_string \<Rightarrow> bool" where
  "IsNull StringUnknown = False"
| "IsNull StringNull = True"
| "IsNull (StringValue s) = False"

fun ValueString :: "tf_string \<Rightarrow> string" where
  "ValueString StringUnknown = []"
| "ValueString StringNull = []"
| "ValueString (StringValue s) = s"

record MatrixProviderModel =
  ClientServerUrl :: tf_string
  DefaultAccessToken :: tf_string
  DefaultUserID :: tf_string

text \<open>
  \<^verbatim>\<open>os.Getenv\<close> reads the process environment, a finite map from names to values,
  and returns the empty string for a name that is not set.
\<close>

definition Getenv :: "(string \<rightharpoonup> string) \<Rightarrow> string \<Rightarrow> string" where
  "Getenv env k = (case env k of None \<Rightarrow> [] | Some v \<Rightarrow> v)"

subsection \<open>Diagnostics\<close>

text \<open>
  Modelled from the spec: the diagnostics collection of the plugin framework
  (\<^verbatim>\<open>resp.Diagnostics\<close> with \<^verbatim>\<open>Append\<close>, \<^verbatim>\<open>AddAttributeError\<close>,
  \<^verbatim>\<open>AddError\<close> and \<^verbatim>\<open>HasError\<close>), which the repository imports and does not
  define. An entry has a severity, an optional attribute path, a summary and a detail;
  entries are kept in insertion order. The framework's \<^verbatim>\<open>Append\<close> skips an entry that
  is already in the collection; the model keeps that test, and the lemmas below show that
  it never fires for the entries the configure cycle adds.
\<close>

datatype severity = SeverityError | SeverityWarning

datatype diagnostic =
  Diagnostic (Severity: severity) (Path: "string option") (Summary: string) (Detail: string)

fun Append :: "diagnostic list \<Rightarrow> diagnostic list \<Rightarrow> diagnostic list" where
  "Append diags [] = diags"
| "Append diags (d # ds) = Append (if d \<in> set diags then diags else diags @ [d]) ds"

definition AddAttributeError ::
  "diagnostic list \<Rightarrow> string \<Rightarrow> string \<Rightarrow> string \<Rightarrow> diagnostic list" where
  "AddAttributeError diags root summary detail =
     Append diags [Diagnostic SeverityError (Some root) summary detail]"

definition AddError :: "diagnostic list \<Rightarrow> string \<Rightarrow> string \<Rightarrow> diagnostic list" where
  "AddError diags summary detail = Append diags [Diagnostic SeverityError None summary detail]"

definition HasError :: "diagnostic list \<Rightarrow> bool" where
  "HasError diags = list_ex (\<lambda>d. Severity d = SeverityError) diags"

subsection \<open>The logging context\<close>

text \<open>
  Modelled from the spec: the structured logger (\<^verbatim>\<open>tflog.SetField\<close>,
  \<^verbatim>\<open>tflog.MaskFieldValuesWithFieldKeys\<close>, \<^verbatim>\<open>tflog.Debug\<close>, \<^verbatim>\<open>tflog.Info\<close>),
  which the repository imports and does not define. A context carries named attributes
  and the names whose values are hidden. Each operation returns a new context. An emission
  merges the attributes given with the call over those of the context and shows
  \<^verbatim>\<open>***\<close> in place of the value of every hidden name.
\<close>

datatype log_value = LString string | LBool bool

record log_ctx =
  attributes :: "(string \<times> log_value) list"
  mask_keys :: "string list"

fun set_attr :: "string \<Rightarrow> log_value \<Rightarrow> (string \<times> log_value) list \<Rightarrow> (string \<times> log_value) list" where
  "set_attr k v [] = [(k, v)]"
| "set_attr k v (p # ps) = (if fst p = k then (k, v) # ps else p # set_attr k v ps)"

definition SetField :: "log_ctx \<Rightarrow> string \<Rightarrow> log_value \<Rightarrow> log_ctx" where
  "SetField ctx k v = ctx\<lparr>attributes := set_attr k v (attributes ctx)\<rparr>"

definition MaskFieldValuesWithFieldKeys :: "log_ctx \<Rightarrow> string list \<Rightarrow> log_ctx" where
  "MaskFieldValuesWithFieldKeys ctx ks = ctx\<lparr>mask_keys := mask_keys ctx @ ks\<rparr>"

definition render :: "log_ctx \<Rightarrow> (string \<times> log_value) list \<Rightarrow> (string \<times> log_value) list" where
  "render ctx additional =
     map (\<lambda>(k, v). (k, if k \<in> set (mask_keys ctx) then LString ''***'' else v))
       (fold (\<lambda>(k, v). set_attr k v) additional (attributes ctx))"

datatype level = LevelDebug | LevelInfo

subsection \<open>Calls to the outside\<close>

text \<open>
  The calls one run makes to the logger and to \<^verbatim>\<open>gomatrix.NewClient\<close>, in program
  order. An emission is recorded with the attributes as they are shown.
\<close>

datatype call =
    FieldSet string log_value
  | Masked "string list"
  | Emitted level string "(string \<times> log_value) list"
  | Constructed string string string

fun is_emission :: "call \<Rightarrow> bool" where
  "is_emission (Emitted l m fs) = True"
| "is_emission c = False"

fun is_construction :: "call \<Rightarrow> bool" where
  "is_construction (Constructed u i t) = True"
| "is_construction c = False"

fun shown :: "call \<Rightarrow> string \<Rightarrow> log_value option" where
  "shown (Emitted l m fs) k = map_of fs k"
| "shown c k = None"

subsection \<open>Request and response\<close>

text \<open>
  \<^verbatim>\<open>req.Config.Get(ctx, &config)\<close> decodes the structured configuration: it returns
  diagnostics and fills \<^verbatim>\<open>config\<close>. The request is modelled by these two results.
  The response holds the diagnostics and the two data slots; a slot holds the pointer to
  the client (type \<open>'c\<close>) or nothing.
\<close>

record ConfigureRequest =
  GetDiagnostics :: "diagnostic list"
  GetConfig :: MatrixProviderModel

record 'c ConfigureResponse =
  Diagnostics :: "diagnostic list"
  DataSourceData :: "'c option"
  ResourceData :: "'c option"

definition new_response :: "'c ConfigureResponse" where
  "new_response = \<lparr>Diagnostics = [], DataSourceData = None, ResourceData = None\<rparr>"

subsection \<open>Configure\<close>

text \<open>Lines 72 to 97: one test per field, each adding a diagnostic of its own.\<close>

definition unknown_pass :: "MatrixProviderModel \<Rightarrow> diagnostic list \<Rightarrow> diagnostic list" where
  "unknown_pass config diags0 =
     (let diags1 =
            (if IsUnknown (ClientServerUrl config) then
               AddAttributeError diags0 ''client_server_url''
                 ''Unknown Matrix Server URL''
                 (''The provider cannot create the Matrix API client as there is an unknown configuration value for the Matrix API host. '' @
                  ''Either target apply the source of the value first, set the value statically in the configuration, or use the MATRIX_CLIENT_SERVER_URL environment variable.'')
             else diags0);
          diags2 =
            (if IsUnknown (DefaultAccessToken config) then
               AddAttributeError diags1 ''default_access_token''
                 ''Unknown Default Access Token''
                 (''The provider cannot create the Matrix API client as there is an unknown configuration value for the default AccessToken. '' @
                  ''Either target apply the source of the value first, set the value statically in the configuration, or use the MATRIX_DEFAULT_ACCESS_TOKEN environment variable.'')
             else diags1);
          diags3 =
            (if IsUnknown (DefaultUserID config) then
               AddAttributeError diags2 ''default_user_id''
                 ''Unknown Default User ID''
                 (''The provider cannot create the Matrix API client as there is an unknown configuration value for the default UserID. '' @
                  ''Either target apply the source of the value first, set the value statically in the configuration, or use the MATRIX_DEFAULT_USERID environment variable.'')
             else diags2)
      in diags3)"

text \<open>
  Lines 106 to 120: each value starts as the environment variable and is overwritten by
  the structured value unless that is null. The result is the triple
  (\<^verbatim>\<open>client_server_url\<close>, \<^verbatim>\<open>default_access_token\<close>, \<^verbatim>\<open>default_user_id\<close>).
\<close>

definition resolve :: "(string \<rightharpoonup> string) \<Rightarrow> MatrixProviderModel \<Rightarrow> string \<times> string \<times> string" where
  "resolve env config =
     (let client_server_url0 = Getenv env ''MATRIX_CLIENT_SERVER_URL'';
          default_access_token0 = Getenv env ''MATRIX_DEFAULT_ACCESS_TOKEN'';
          default_user_id0 = Getenv env ''MATRIX_DEFAULT_USERID'';
          client_server_url =
            (if \<not> IsNull (ClientServerUrl config) then ValueString (ClientServerUrl config)
             else client_server_url0);
          default_access_token =
            (if \<not> IsNull (DefaultAccessToken config) then ValueString (DefaultAccessToken config)
             else default_access_token0);
          default_user_id =
            (if \<not> IsNull (DefaultUserID config) then ValueString (DefaultUserID config)
             else default_user_id0)
      in (client_server_url, default_access_token, default_user_id))"

text \<open>Lines 122 to 150: one test per resolved value.\<close>

definition empty_pass :: "string \<times> string \<times> string \<Rightarrow> diagnostic list \<Rightarrow> diagnostic list" where
  "empty_pass resolved diags0 =
     (case resolved of (client_server_url, default_access_token, default_user_id) \<Rightarrow>
      let diags1 =
            (if client_server_url = [] then
               AddAttributeError diags0 ''client_server_url''
                 ''Missing Matrix Server URL''
                 (''The provider cannot create the Matrix API client as there is a missing or empty value for the Matrix API host. '' @
                  ''Set the client_server_url value in the configuration or use the MATRIX_CLIENT_SERVER_URL environment variable. '' @
                  ''If either is already set, ensure the value is not empty.'')
             else diags0);
          diags2 =
            (if default_access_token = [] then
               AddAttributeError diags1 ''default_access_token''
                 ''Missing Default Access Token''
                 (''The provider cannot create the Matrix API client as there is a missing or empty value for the default AccessToken. '' @
                  ''Set the default_access_token value in the configuration or use the MATRIX_DEFAULT_ACCESS_TOKEN environment variable. '' @
                  ''If either is already set, ensure the value is not empty.'')
             else diags1);
          diags3 =
            (if default_user_id = [] then
               AddAttributeError diags2 ''default_user_id''
                 ''Missing Default UserID''
                 (''The provider cannot create the Matrix API client as there is a missing or empty value for the default UserID. '' @
                  ''Set the default_user_id value in the configuration or use the MATRIX_DEFAULT_USERID environment variable. '' @
                  ''If either is already set, ensure the value is not empty.'')
             else diags2)
      in diags3)"

text \<open>Lines 156 to 159: the three attributes, then the mask on the access token.\<close>

definition logging_context :: "log_ctx \<Rightarrow> string \<times> string \<times> string \<Rightarrow> log_ctx" where
  "logging_context ctx0 resolved =
     (case resolved of (client_server_url, default_access_token, default_user_id) \<Rightarrow>
      let ctx1 = SetField ctx0 ''client_server_url'' (LString client_server_url);
          ctx2 = SetField ctx1 ''default_access_token'' (LString default_access_token);
          ctx3 = SetField ctx2 ''default_user_id'' (LString default_user_id);
          ctx4 = MaskFieldValuesWithFieldKeys ctx3 [''default_access_token'']
      in ctx4)"

definition logging_calls :: "string \<times> string \<times> string \<Rightarrow> call list" where
  "logging_calls resolved =
     (case resolved of (client_server_url, default_access_token, default_user_id) \<Rightarrow>
      [FieldSet ''client_server_url'' (LString client_server_url),
       FieldSet ''default_access_token'' (LString default_access_token),
       FieldSet ''default_user_id'' (LString default_user_id),
       Masked [''default_access_token'']])"

text \<open>
  The contexts that descend from a context are those reached by a sequence of the two
  operations of the logger that return a context.
\<close>

datatype ctx_op = OpSetField string log_value | OpMask "string list"

fun apply_op :: "log_ctx \<Rightarrow> ctx_op \<Rightarrow> log_ctx" where
  "apply_op ctx (OpSetField k v) = SetField ctx k v"
| "apply_op ctx (OpMask ks) = MaskFieldValuesWithFieldKeys ctx ks"

definition derive :: "log_ctx \<Rightarrow> ctx_op list \<Rightarrow> log_ctx" where
  "derive ctx ops = fold (\<lambda>op c. apply_op c op) ops ctx"

text \<open>
  Lines 63 to 178. \<open>NewClient\<close> stands for \<^verbatim>\<open>gomatrix.NewClient\<close>: it returns the
  message of its error (\<^verbatim>\<open>err.Error()\<close>) or the pointer to the client it built. The
  result is the response as the function leaves it and the calls it made.
\<close>

definition Configure ::
  "(string \<Rightarrow> string \<Rightarrow> string \<Rightarrow> string + 'c) \<Rightarrow> (string \<rightharpoonup> string) \<Rightarrow> log_ctx \<Rightarrow>
   ConfigureRequest \<Rightarrow> 'c ConfigureResponse \<Rightarrow> 'c ConfigureResponse \<times> call list" where
  "Configure NewClient env ctx0 req resp0 =
     (let config = GetConfig req;
          resp1 = resp0\<lparr>Diagnostics := Append (Diagnostics resp0) (GetDiagnostics req)\<rparr>
      in if HasError (Diagnostics resp1) then (resp1, [])
      else
        let resp2 = resp1\<lparr>Diagnostics := unknown_pass config (Diagnostics resp1)\<rparr>
        in if HasError (Diagnostics resp2) then (resp2, [])
        else
          let resolved = resolve env config;
              resp3 = resp2\<lparr>Diagnostics := empty_pass resolved (Diagnostics resp2)\<rparr>
          in if HasError (Diagnostics resp3) then (resp3, [])
          else
            (case resolved of (client_server_url, default_access_token, default_user_id) \<Rightarrow>
              (let ctx = logging_context ctx0 resolved;
                   calls1 = logging_calls resolved @
                            [Emitted LevelDebug ''Creating Matrix client'' (render ctx []),
                             Constructed client_server_url default_user_id default_access_token]
               in (case NewClient client_server_url default_user_id default_access_token of
                     Inl err \<Rightarrow>
                       (resp3\<lparr>Diagnostics :=
                           AddError (Diagnostics resp3)
                             ''Unable to Create Matrix API Client''
                             (''An unexpected error occurred when creating the Matrix API client. '' @
                              ''If the error is not clear, please contact the provider developers.'' @
                              [CHR 0x0A, CHR 0x0A] @
                              ''Matrix Client Error: '' @ err)\<rparr>,
                        calls1)
                   | Inr client \<Rightarrow>
                       (resp3\<lparr>DataSourceData := Some client, ResourceData := Some client\<rparr>,
                        calls1 @
                        [Emitted LevelInfo ''Configured Matrix client''
                           (render ctx [(''success'', LBool True)])])))))"

subsection \<open>Inputs for the examples\<close>

text \<open>
  Two stand-ins for the client constructor (one returns a client that records its three
  arguments, one fails), a logging context with no attribute and no mask, and a request
  whose read adds no diagnostic.
\<close>

definition accepting_client :: "string \<Rightarrow> string \<Rightarrow> string \<Rightarrow> string + string \<times> string \<times> string" where
  "accepting_client homeserverURL userID accessToken = Inr (homeserverURL, userID, accessToken)"

definition failing_client :: "string \<Rightarrow> string \<Rightarrow> string \<Rightarrow> string + string \<times> string \<times> string" where
  "failing_client homeserverURL userID accessToken = Inl ''parse error''"

definition plain_ctx :: log_ctx where
  "plain_ctx = \<lparr>attributes = [], mask_keys = []\<rparr>"

definition request :: "tf_string \<Rightarrow> tf_string \<Rightarrow> tf_string \<Rightarrow> ConfigureRequest" where
  "request url token userid =
     \<lparr>GetDiagnostics = [],
      GetConfig = \<lparr>ClientServerUrl = url, DefaultAccessToken = token, DefaultUserID = userid\<rparr>\<rparr>"

section \<open>Auxiliary facts\<close>

subsection \<open>Diagnostics and the stages of the cycle\<close>

lemma Append_single: "Append ds [d] = (if d \<in> set ds then ds else ds @ [d])"
  by simp

lemma HasError_append: "HasError (xs @ ys) = (HasError xs \<or> HasError ys)"
  by (simp add: HasError_def list_ex_iff) blast

lemma HasError_iff: "HasError ds = (\<exists>d\<in>set ds. Severity d = SeverityError)"
  by (simp add: HasError_def list_ex_iff)

lemma error_not_in_clean:
  "\<not> HasError ds \<Longrightarrow> Diagnostic SeverityError p s t \<notin> set ds"
  by (auto simp: HasError_iff)

lemma AddAttributeError_clean:
  "Diagnostic SeverityError (Some p) s t \<notin> set ds \<Longrightarrow>
   AddAttributeError ds p s t = ds @ [Diagnostic SeverityError (Some p) s t]"
  by (simp add: AddAttributeError_def)

lemma AddError_clean:
  "\<not> HasError ds \<Longrightarrow> AddError ds s dt = ds @ [Diagnostic SeverityError None s dt]"
  by (simp add: AddError_def error_not_in_clean)

lemma unknown_pass_none:
  "\<not> IsUnknown (ClientServerUrl config) \<Longrightarrow> \<not> IsUnknown (DefaultAccessToken config) \<Longrightarrow>
   \<not> IsUnknown (DefaultUserID config) \<Longrightarrow> unknown_pass config ds = ds"
  by (simp add: unknown_pass_def)

lemma unknown_pass_some:
  assumes "\<not> HasError ds"
  shows "HasError (unknown_pass config ds) =
    (IsUnknown (ClientServerUrl config) \<or> IsUnknown (DefaultAccessToken config) \<or>
     IsUnknown (DefaultUserID config))"
proof -
  have nin: "\<And>p s t. Diagnostic SeverityError p s t \<notin> set ds"
    using assms by (rule error_not_in_clean)
  show ?thesis using assms
    by (simp add: unknown_pass_def AddAttributeError_def nin Let_def HasError_append)
       (simp add: HasError_def)
qed

lemma unknown_pass_entries:
  assumes "\<not> HasError ds"
  shows "\<exists>new. unknown_pass config ds = ds @ new
     \<and> map (\<lambda>d. (Severity d, Path d, Summary d)) new =
         (if IsUnknown (ClientServerUrl config)
          then [(SeverityError, Some ''client_server_url'', ''Unknown Matrix Server URL'')] else []) @
         (if IsUnknown (DefaultAccessToken config)
          then [(SeverityError, Some ''default_access_token'', ''Unknown Default Access Token'')] else []) @
         (if IsUnknown (DefaultUserID config)
          then [(SeverityError, Some ''default_user_id'', ''Unknown Default User ID'')] else [])"
proof -
  have nin: "\<And>p s t. Diagnostic SeverityError p s t \<notin> set ds"
    using assms by (rule error_not_in_clean)
  show ?thesis
    by (simp add: unknown_pass_def AddAttributeError_def nin Let_def)
qed

lemma empty_pass_none:
  "u \<noteq> [] \<Longrightarrow> t \<noteq> [] \<Longrightarrow> i \<noteq> [] \<Longrightarrow> empty_pass (u, t, i) ds = ds"
  by (simp add: empty_pass_def)

lemma empty_pass_some:
  assumes "\<not> HasError ds"
  shows "HasError (empty_pass (u, t, i) ds) = (u = [] \<or> t = [] \<or> i = [])"
proof -
  have nin: "\<And>p s t. Diagnostic SeverityError p s t \<notin> set ds"
    using assms by (rule error_not_in_clean)
  show ?thesis using assms
    by (simp add: empty_pass_def AddAttributeError_def nin Let_def HasError_append)
       (simp add: HasError_def)
qed

lemma empty_pass_entries:
  assumes "\<not> HasError ds"
  shows "\<exists>new. empty_pass (u, t, i) ds = ds @ new
     \<and> map (\<lambda>d. (Severity d, Path d, Summary d)) new =
         (if u = [] then [(SeverityError, Some ''client_server_url'', ''Missing Matrix Server URL'')] else []) @
         (if t = [] then [(SeverityError, Some ''default_access_token'', ''Missing Default Access Token'')] else []) @
         (if i = [] then [(SeverityError, Some ''default_user_id'', ''Missing Default UserID'')] else [])"
proof -
  have nin: "\<And>p s t. Diagnostic SeverityError p s t \<notin> set ds"
    using assms by (rule error_not_in_clean)
  show ?thesis
    by (simp add: empty_pass_def AddAttributeError_def nin Let_def)
qed

lemma Configure_read_failed:
  "HasError (Append (Diagnostics resp) (GetDiagnostics req)) \<Longrightarrow>
   Configure NewClient env ctx req resp =
     (resp\<lparr>Diagnostics := Append (Diagnostics resp) (GetDiagnostics req)\<rparr>, [])"
  by (simp add: Configure_def Let_def)

lemma Configure_unknown:
  "\<not> HasError (Append (Diagnostics resp) (GetDiagnostics req)) \<Longrightarrow>
   HasError (unknown_pass (GetConfig req) (Append (Diagnostics resp) (GetDiagnostics req))) \<Longrightarrow>
   Configure NewClient env ctx req resp =
     (resp\<lparr>Diagnostics :=
        unknown_pass (GetConfig req) (Append (Diagnostics resp) (GetDiagnostics req))\<rparr>, [])"
  by (simp add: Configure_def Let_def)

lemma Configure_empty:
  "\<not> HasError (Append (Diagnostics resp) (GetDiagnostics req)) \<Longrightarrow>
   unknown_pass (GetConfig req) (Append (Diagnostics resp) (GetDiagnostics req)) =
     Append (Diagnostics resp) (GetDiagnostics req) \<Longrightarrow>
   HasError (empty_pass (resolve env (GetConfig req))
     (Append (Diagnostics resp) (GetDiagnostics req))) \<Longrightarrow>
   Configure NewClient env ctx req resp =
     (resp\<lparr>Diagnostics :=
        empty_pass (resolve env (GetConfig req))
          (Append (Diagnostics resp) (GetDiagnostics req))\<rparr>, [])"
  by (simp add: Configure_def Let_def)

lemma Configure_construct:
  "\<not> HasError (Append (Diagnostics resp) (GetDiagnostics req)) \<Longrightarrow>
   unknown_pass (GetConfig req) (Append (Diagnostics resp) (GetDiagnostics req)) =
     Append (Diagnostics resp) (GetDiagnostics req) \<Longrightarrow>
   resolve env (GetConfig req) = (u, t, i) \<Longrightarrow>
   empty_pass (u, t, i) (Append (Diagnostics resp) (GetDiagnostics req)) =
     Append (Diagnostics resp) (GetDiagnostics req) \<Longrightarrow>
   Configure NewClient env ctx req resp =
     (case NewClient u i t of
        Inl err \<Rightarrow>
          (resp\<lparr>Diagnostics :=
             AddError (Append (Diagnostics resp) (GetDiagnostics req))
               ''Unable to Create Matrix API Client''
               (''An unexpected error occurred when creating the Matrix API client. '' @
                ''If the error is not clear, please contact the provider developers.'' @
                [CHR 0x0A, CHR 0x0A] @ ''Matrix Client Error: '' @ err)\<rparr>,
           logging_calls (u, t, i) @
           [Emitted LevelDebug ''Creating Matrix client'' (render (logging_context ctx (u, t, i)) []),
            Constructed u i t])
      | Inr client \<Rightarrow>
          (resp\<lparr>Diagnostics := Append (Diagnostics resp) (GetDiagnostics req),
                DataSourceData := Some client, ResourceData := Some client\<rparr>,
           logging_calls (u, t, i) @
           [Emitted LevelDebug ''Creating Matrix client'' (render (logging_context ctx (u, t, i)) []),
            Constructed u i t,
            Emitted LevelInfo ''Configured Matrix client''
              (render (logging_context ctx (u, t, i)) [(''success'', LBool True)])]))"
  by (simp add: Configure_def Let_def split: sum.splits)

lemma Constructed_in_calls:
  assumes "Constructed a b c \<in> set (snd (Configure NewClient env ctx req resp))"
  shows "\<not> HasError (Append (Diagnostics resp) (GetDiagnostics req))
     \<and> unknown_pass (GetConfig req) (Append (Diagnostics resp) (GetDiagnostics req)) =
         Append (Diagnostics resp) (GetDiagnostics req)
     \<and> empty_pass (resolve env (GetConfig req)) (Append (Diagnostics resp) (GetDiagnostics req)) =
         Append (Diagnostics resp) (GetDiagnostics req)
     \<and> resolve env (GetConfig req) = (a, c, b)"
proof -
  let ?d0 = "Append (Diagnostics resp) (GetDiagnostics req)"
  obtain u t i where r: "resolve env (GetConfig req) = (u, t, i)"
    by (cases "resolve env (GetConfig req)") auto
  have a: "\<not> HasError ?d0"
    using assms by (auto simp: Configure_read_failed)
  have b: "\<not> HasError (unknown_pass (GetConfig req) ?d0)"
    using assms a by (auto simp: Configure_unknown)
  then have b': "unknown_pass (GetConfig req) ?d0 = ?d0"
    using a by (simp add: unknown_pass_some unknown_pass_none)
  have c: "\<not> HasError (empty_pass (u, t, i) ?d0)"
    using assms a b' r by (auto simp: Configure_empty)
  then have c': "empty_pass (u, t, i) ?d0 = ?d0"
    using a by (simp add: empty_pass_some empty_pass_none)
  have "Constructed a b c \<in> set (snd (case NewClient u i t of
        Inl err \<Rightarrow>
          (resp\<lparr>Diagnostics :=
             AddError (Append (Diagnostics resp) (GetDiagnostics req))
               ''Unable to Create Matrix API Client''
               (''An unexpected error occurred when creating the Matrix API client. '' @
                ''If the error is not clear, please contact the provider developers.'' @
                [CHR 0x0A, CHR 0x0A] @ ''Matrix Client Error: '' @ err)\<rparr>,
           logging_calls (u, t, i) @
           [Emitted LevelDebug ''Creating Matrix client'' (render (logging_context ctx (u, t, i)) []),
            Constructed u i t])
      | Inr client \<Rightarrow>
          (resp\<lparr>Diagnostics := Append (Diagnostics resp) (GetDiagnostics req),
                DataSourceData := Some client, ResourceData := Some client\<rparr>,
           logging_calls (u, t, i) @
           [Emitted LevelDebug ''Creating Matrix client'' (render (logging_context ctx (u, t, i)) []),
            Constructed u i t,
            Emitted LevelInfo ''Configured Matrix client''
              (render (logging_context ctx (u, t, i)) [(''success'', LBool True)])])))"
    using assms Configure_construct [OF a b' r c', of NewClient ctx] by simp
  then have "a = u \<and> b = i \<and> c = t"
    by (cases "NewClient u i t") (auto simp: logging_calls_def)
  then show ?thesis using a b' c' r by simp
qed

lemma Configure_outcome:
  assumes res: "resolve env (GetConfig req) = (u, t, i)"
  shows "(HasError (Diagnostics (fst (Configure NewClient env ctx req resp)))
        \<and> DataSourceData (fst (Configure NewClient env ctx req resp)) = DataSourceData resp
        \<and> ResourceData (fst (Configure NewClient env ctx req resp)) = ResourceData resp)
     \<or> (\<not> HasError (Append (Diagnostics resp) (GetDiagnostics req))
        \<and> (\<exists>c. NewClient u i t = Inr c
             \<and> Configure NewClient env ctx req resp =
                 (resp\<lparr>Diagnostics := Append (Diagnostics resp) (GetDiagnostics req),
                       DataSourceData := Some c, ResourceData := Some c\<rparr>,
                  logging_calls (u, t, i) @
                  [Emitted LevelDebug ''Creating Matrix client''
                     (render (logging_context ctx (u, t, i)) []),
                   Constructed u i t,
                   Emitted LevelInfo ''Configured Matrix client''
                     (render (logging_context ctx (u, t, i)) [(''success'', LBool True)])])))"
proof -
  let ?d0 = "Append (Diagnostics resp) (GetDiagnostics req)"
  let ?d1 = "unknown_pass (GetConfig req) ?d0"
  let ?d2 = "empty_pass (u, t, i) ?d0"
  show ?thesis
  proof (cases "HasError ?d0")
    case True
    then show ?thesis by (simp add: Configure_read_failed)
  next
    case clean: False
    show ?thesis
    proof (cases "HasError ?d1")
      case True
      with clean show ?thesis by (simp add: Configure_unknown)
    next
      case False
      with clean have d1: "?d1 = ?d0"
        by (simp add: unknown_pass_some unknown_pass_none)
      show ?thesis
      proof (cases "HasError ?d2")
        case True
        with clean d1 res show ?thesis by (simp add: Configure_empty)
      next
        case False
        with clean have d2: "?d2 = ?d0"
          by (simp add: empty_pass_some empty_pass_none)
        note run = Configure_construct [OF clean d1 res d2, of NewClient ctx]
        show ?thesis
        proof (cases "NewClient u i t")
          case (Inl err)
          then show ?thesis using clean
            by (simp add: run AddError_clean HasError_append) (simp add: HasError_def)
        next
          case (Inr c)
          then show ?thesis using clean by (simp add: run)
        qed
      qed
    qed
  qed
qed

subsection \<open>The logging context\<close>

lemma map_of_set_attr:
  "map_of (set_attr k v ps) k' = (if k' = k then Some v else map_of ps k')"
  by (induction ps) auto

lemma map_of_merge_keeps:
  "map_of base k \<noteq> None \<Longrightarrow> map_of (fold (\<lambda>(k, v). set_attr k v) additional base) k \<noteq> None"
  by (induction additional arbitrary: base) (auto simp: map_of_set_attr)

lemma map_of_masked:
  "map_of (map (\<lambda>(k, v). (k, if k \<in> M then LString ''***'' else v)) ps) k =
     (case map_of ps k of None \<Rightarrow> None
      | Some v \<Rightarrow> Some (if k \<in> M then LString ''***'' else v))"
  by (induction ps) auto

lemma render_lookup:
  "map_of (render ctx additional) k =
     (case map_of (fold (\<lambda>(k, v). set_attr k v) additional (attributes ctx)) k of
        None \<Rightarrow> None
      | Some v \<Rightarrow> Some (if k \<in> set (mask_keys ctx) then LString ''***'' else v))"
  by (simp add: render_def map_of_masked)

lemma derive_keeps:
  "k \<in> set (mask_keys ctx) \<Longrightarrow> map_of (attributes ctx) k \<noteq> None \<Longrightarrow>
   k \<in> set (mask_keys (derive ctx ops)) \<and> map_of (attributes (derive ctx ops)) k \<noteq> None"
proof (induction ops arbitrary: ctx)
  case Nil
  then show ?case by (simp add: derive_def)
next
  case (Cons op ops)
  have step: "k \<in> set (mask_keys (apply_op ctx op)) \<and> map_of (attributes (apply_op ctx op)) k \<noteq> None"
    using Cons.prems
    by (cases op) (simp_all add: SetField_def MaskFieldValuesWithFieldKeys_def map_of_set_attr)
  have "derive ctx (op # ops) = derive (apply_op ctx op) ops"
    by (simp add: derive_def)
  then show ?case using Cons.IH step by simp
qed

lemma logging_context_masks:
  "''default_access_token'' \<in> set (mask_keys (logging_context ctx (u, t, i)))
 \<and> map_of (attributes (logging_context ctx (u, t, i))) ''default_access_token'' \<noteq> None"
  by (simp add: logging_context_def SetField_def MaskFieldValuesWithFieldKeys_def
        map_of_set_attr Let_def)

lemma derived_shows_mask:
  "map_of (render (derive (logging_context ctx (u, t, i)) ops) additional)
     ''default_access_token'' = Some (LString ''***'')"
proof -
  let ?c = "derive (logging_context ctx (u, t, i)) ops"
  from derive_keeps [OF conjunct1 [OF logging_context_masks] conjunct2 [OF logging_context_masks]]
  have m: "''default_access_token'' \<in> set (mask_keys ?c)"
    and a: "map_of (attributes ?c) ''default_access_token'' \<noteq> None"
    by blast+
  from map_of_merge_keeps [OF a, of additional]
  obtain v where "map_of (fold (\<lambda>(k, v). set_attr k v) additional (attributes ?c))
      ''default_access_token'' = Some v"
    by blast
  then show ?thesis using m by (simp add: render_lookup)
qed

lemma logging_context_shows:
  assumes "''client_server_url'' \<notin> set (mask_keys ctx)" "''default_user_id'' \<notin> set (mask_keys ctx)"
      and "additional = [] \<or> additional = [(''success'', LBool True)]"
  shows "map_of (render (logging_context ctx (u, t, i)) additional) ''default_access_token'' =
           Some (LString ''***'')
       \<and> map_of (render (logging_context ctx (u, t, i)) additional) ''client_server_url'' =
           Some (LString u)
       \<and> map_of (render (logging_context ctx (u, t, i)) additional) ''default_user_id'' =
           Some (LString i)"
  using assms
  by (auto simp: render_lookup logging_context_def SetField_def MaskFieldValuesWithFieldKeys_def
        map_of_set_attr Let_def)

section \<open>The claims\<close>

text \<open>
  C1. Resolution (lines 106 to 120). For each of the three fields whose structured value
  is not unknown, the resolved value is the structured string when the field is concrete,
  and otherwise the value of the field's environment variable, the empty string when the
  variable is not set: a concrete structured value always wins over the environment. The
  values the client constructor receives are these resolved values.
\<close>

theorem resolve_precedence:
  "(ClientServerUrl (GetConfig req) \<noteq> StringUnknown \<longrightarrow>
      fst (resolve env (GetConfig req)) =
        (case ClientServerUrl (GetConfig req) of
           StringValue s \<Rightarrow> s
         | _ \<Rightarrow> (case env ''MATRIX_CLIENT_SERVER_URL'' of None \<Rightarrow> [] | Some v \<Rightarrow> v)))
 \<and> (DefaultAccessToken (GetConfig req) \<noteq> StringUnknown \<longrightarrow>
      fst (snd (resolve env (GetConfig req))) =
        (case DefaultAccessToken (GetConfig req) of
           StringValue s \<Rightarrow> s
         | _ \<Rightarrow> (case env ''MATRIX_DEFAULT_ACCESS_TOKEN'' of None \<Rightarrow> [] | Some v \<Rightarrow> v)))
 \<and> (DefaultUserID (GetConfig req) \<noteq> StringUnknown \<longrightarrow>
      snd (snd (resolve env (GetConfig req))) =
        (case DefaultUserID (GetConfig req) of
           StringValue s \<Rightarrow> s
         | _ \<Rightarrow> (case env ''MATRIX_DEFAULT_USERID'' of None \<Rightarrow> [] | Some v \<Rightarrow> v)))
 \<and> (\<forall>u i t. Constructed u i t \<in> set (snd (Configure NewClient env ctx req resp)) \<longrightarrow>
        resolve env (GetConfig req) = (u, t, i))"
proof -
  have "\<And>u i t. Constructed u i t \<in> set (snd (Configure NewClient env ctx req resp)) \<Longrightarrow>
        resolve env (GetConfig req) = (u, t, i)"
    using Constructed_in_calls by blast
  then show ?thesis
    by (simp add: resolve_def Getenv_def split: tf_string.splits)
qed

theorem resolve_precedence_witness:
  "StringValue ''https://matrix.org'' \<noteq> StringUnknown \<and> StringNull \<noteq> StringUnknown
 \<and> resolve [''MATRIX_DEFAULT_ACCESS_TOKEN'' \<mapsto> ''abc'', ''MATRIX_CLIENT_SERVER_URL'' \<mapsto> ''https://x'']
       (GetConfig (request (StringValue ''https://matrix.org'') StringNull StringNull))
     = (''https://matrix.org'', ''abc'', [])
 \<and> Constructed ''https://matrix.org'' ''@a:matrix.org'' ''abc'' \<in> set (snd
       (Configure accepting_client [''MATRIX_DEFAULT_ACCESS_TOKEN'' \<mapsto> ''abc'', ''MATRIX_DEFAULT_USERID'' \<mapsto> ''@a:matrix.org''] plain_ctx
          (request (StringValue ''https://matrix.org'') StringNull StringNull) new_response))
 \<and> resolve [''MATRIX_DEFAULT_ACCESS_TOKEN'' \<mapsto> ''abc'', ''MATRIX_DEFAULT_USERID'' \<mapsto> ''@a:matrix.org'']
       (GetConfig (request (StringValue ''https://matrix.org'') StringNull StringNull))
     = (''https://matrix.org'', ''abc'', ''@a:matrix.org'')"
proof -
  let ?req = "(request (StringValue ''https://matrix.org'') StringNull StringNull)"
  let ?env1 = "[''MATRIX_DEFAULT_ACCESS_TOKEN'' \<mapsto> ''abc'', ''MATRIX_CLIENT_SERVER_URL'' \<mapsto> ''https://x'']"
  let ?env2 = "[''MATRIX_DEFAULT_ACCESS_TOKEN'' \<mapsto> ''abc'', ''MATRIX_DEFAULT_USERID'' \<mapsto> ''@a:matrix.org'']"
  have cfg: "ClientServerUrl (GetConfig ?req) = StringValue ''https://matrix.org''"
    "DefaultAccessToken (GetConfig ?req) = StringNull" "DefaultUserID (GetConfig ?req) = StringNull"
    by (simp_all add: request_def)
  have run: "Constructed ''https://matrix.org'' ''@a:matrix.org'' ''abc'' \<in> set (snd
       (Configure accepting_client ?env2 plain_ctx ?req new_response))"
    by (simp add: Configure_def new_response_def HasError_def unknown_pass_def resolve_def Getenv_def empty_pass_def logging_calls_def AddError_def AddAttributeError_def Let_def accepting_client_def failing_client_def plain_ctx_def request_def)
  have a: "resolve ?env1 (GetConfig ?req) = (''https://matrix.org'', ''abc'', [])"
    using resolve_precedence [of ?req ?env1 accepting_client plain_ctx new_response] cfg
    by (cases "resolve ?env1 (GetConfig ?req)") simp
  have b: "resolve ?env2 (GetConfig ?req) = (''https://matrix.org'', ''abc'', ''@a:matrix.org'')"
    using resolve_precedence [of ?req ?env2 accepting_client plain_ctx new_response] run by simp
  show ?thesis using a b run by simp
qed

text \<open>
  C2. The unknown-value pass (lines 72 to 101). In a cycle whose configuration was read
  without an error diagnostic (line 68 does not return) and in which at least one of the
  three structured fields is unknown, the diagnostics the cycle leaves are those of the
  read followed by one error entry per unknown field, in the order server URL, access
  token, user ID, each carrying the attribute path of its own field; a known or null
  field adds nothing, and an unknown field is reported whatever the earlier fields were.
  The cycle then returns: it makes no call to the logger or to the client constructor
  and leaves both data slots as they were.
\<close>

theorem unknown_fields_block:
  assumes read_ok: "\<not> HasError (Append (Diagnostics resp) (GetDiagnostics req))"
      and some_unknown: "IsUnknown (ClientServerUrl (GetConfig req)) \<or>
        IsUnknown (DefaultAccessToken (GetConfig req)) \<or> IsUnknown (DefaultUserID (GetConfig req))"
  shows "\<exists>new.
       Diagnostics (fst (Configure NewClient env ctx req resp)) =
         Append (Diagnostics resp) (GetDiagnostics req) @ new
     \<and> map (\<lambda>d. (Severity d, Path d, Summary d)) new =
         (if IsUnknown (ClientServerUrl (GetConfig req))
          then [(SeverityError, Some ''client_server_url'', ''Unknown Matrix Server URL'')] else []) @
         (if IsUnknown (DefaultAccessToken (GetConfig req))
          then [(SeverityError, Some ''default_access_token'', ''Unknown Default Access Token'')] else []) @
         (if IsUnknown (DefaultUserID (GetConfig req))
          then [(SeverityError, Some ''default_user_id'', ''Unknown Default User ID'')] else [])
     \<and> snd (Configure NewClient env ctx req resp) = []
     \<and> DataSourceData (fst (Configure NewClient env ctx req resp)) = DataSourceData resp
     \<and> ResourceData (fst (Configure NewClient env ctx req resp)) = ResourceData resp"
proof -
  let ?d0 = "Append (Diagnostics resp) (GetDiagnostics req)"
  have blocked: "HasError (unknown_pass (GetConfig req) ?d0)"
    using read_ok some_unknown by (simp add: unknown_pass_some)
  have run: "Configure NewClient env ctx req resp =
      (resp\<lparr>Diagnostics := unknown_pass (GetConfig req) ?d0\<rparr>, [])"
    using read_ok blocked by (rule Configure_unknown)
  from unknown_pass_entries [OF read_ok, of "GetConfig req"]
  show ?thesis unfolding run by simp
qed

theorem unknown_fields_block_witness:
  "map (\<lambda>d. (Severity d, Path d, Summary d))
     (Diagnostics (fst (Configure accepting_client Map.empty plain_ctx
        (request StringUnknown (StringValue ''abc'') StringUnknown) new_response)))
   = [(SeverityError, Some ''client_server_url'', ''Unknown Matrix Server URL''),
      (SeverityError, Some ''default_user_id'', ''Unknown Default User ID'')]
 \<and> snd (Configure accepting_client Map.empty plain_ctx
        (request StringUnknown (StringValue ''abc'') StringUnknown) new_response) = []"
proof -
  let ?req = "(request StringUnknown (StringValue ''abc'') StringUnknown)"
  let ?resp = "new_response :: (string \<times> string \<times> string) ConfigureResponse"
  have h1: "\<not> HasError (Append (Diagnostics ?resp) (GetDiagnostics ?req))"
    by (simp add: new_response_def request_def HasError_def)
  have h2: "IsUnknown (ClientServerUrl (GetConfig ?req)) \<or>
        IsUnknown (DefaultAccessToken (GetConfig ?req)) \<or> IsUnknown (DefaultUserID (GetConfig ?req))"
    by (simp add: request_def)
  show ?thesis
    using unknown_fields_block [OF h1 h2, of accepting_client Map.empty plain_ctx]
    by (auto simp: new_response_def request_def)
qed

text \<open>
  C3. The emptiness pass (lines 99 to 154), in a cycle whose configuration was read
  without an error diagnostic. When the unknown-value pass has left an error, the cycle
  ends with exactly the diagnostics of that pass and without any call: nothing is added
  for a field whose resolved value is empty. When it has left none, the diagnostics of
  the read are followed by one error entry per field whose resolved value is the empty
  string, in the order server URL, access token, user ID, each carrying the attribute
  path of its own field; and if at least one such entry was added, nothing follows it,
  the cycle makes no call to the logger or to the client constructor and both data slots
  stay as they were.
\<close>

theorem emptiness_pass_gated:
  assumes read_ok: "\<not> HasError (Append (Diagnostics resp) (GetDiagnostics req))"
  shows "(HasError (unknown_pass (GetConfig req) (Append (Diagnostics resp) (GetDiagnostics req))) \<longrightarrow>
          Diagnostics (fst (Configure NewClient env ctx req resp)) =
            unknown_pass (GetConfig req) (Append (Diagnostics resp) (GetDiagnostics req))
        \<and> snd (Configure NewClient env ctx req resp) = [])
     \<and> (\<not> HasError (unknown_pass (GetConfig req) (Append (Diagnostics resp) (GetDiagnostics req))) \<longrightarrow>
          (\<exists>new rest.
              Diagnostics (fst (Configure NewClient env ctx req resp)) =
                Append (Diagnostics resp) (GetDiagnostics req) @ new @ rest
            \<and> map (\<lambda>d. (Severity d, Path d, Summary d)) new =
                (if fst (resolve env (GetConfig req)) = []
                 then [(SeverityError, Some ''client_server_url'', ''Missing Matrix Server URL'')] else []) @
                (if fst (snd (resolve env (GetConfig req))) = []
                 then [(SeverityError, Some ''default_access_token'', ''Missing Default Access Token'')] else []) @
                (if snd (snd (resolve env (GetConfig req))) = []
                 then [(SeverityError, Some ''default_user_id'', ''Missing Default UserID'')] else [])
            \<and> (new \<noteq> [] \<longrightarrow>
                  rest = []
                \<and> snd (Configure NewClient env ctx req resp) = []
                \<and> DataSourceData (fst (Configure NewClient env ctx req resp)) = DataSourceData resp
                \<and> ResourceData (fst (Configure NewClient env ctx req resp)) = ResourceData resp)))"
proof (intro conjI impI)
  let ?d0 = "Append (Diagnostics resp) (GetDiagnostics req)"
  let ?d1 = "unknown_pass (GetConfig req) ?d0"
  {
    assume blocked: "HasError ?d1"
    note run = Configure_unknown [OF read_ok blocked, of NewClient env ctx]
    show "Diagnostics (fst (Configure NewClient env ctx req resp)) = ?d1"
      by (simp add: run)
    show "snd (Configure NewClient env ctx req resp) = []"
      by (simp add: run)
  }
  assume "\<not> HasError ?d1"
  with read_ok have d1: "?d1 = ?d0"
    by (simp add: unknown_pass_some unknown_pass_none)
  obtain u t i where res: "resolve env (GetConfig req) = (u, t, i)"
    by (cases "resolve env (GetConfig req)") auto
  from empty_pass_entries [OF read_ok, of u t i]
  obtain new where new: "empty_pass (u, t, i) ?d0 = ?d0 @ new"
    and entries: "map (\<lambda>d. (Severity d, Path d, Summary d)) new =
         (if u = [] then [(SeverityError, Some ''client_server_url'', ''Missing Matrix Server URL'')] else []) @
         (if t = [] then [(SeverityError, Some ''default_access_token'', ''Missing Default Access Token'')] else []) @
         (if i = [] then [(SeverityError, Some ''default_user_id'', ''Missing Default UserID'')] else [])"
    by blast
  show "\<exists>new rest.
              Diagnostics (fst (Configure NewClient env ctx req resp)) = ?d0 @ new @ rest
            \<and> map (\<lambda>d. (Severity d, Path d, Summary d)) new =
                (if fst (resolve env (GetConfig req)) = []
                 then [(SeverityError, Some ''client_server_url'', ''Missing Matrix Server URL'')] else []) @
                (if fst (snd (resolve env (GetConfig req))) = []
                 then [(SeverityError, Some ''default_access_token'', ''Missing Default Access Token'')] else []) @
                (if snd (snd (resolve env (GetConfig req))) = []
                 then [(SeverityError, Some ''default_user_id'', ''Missing Default UserID'')] else [])
            \<and> (new \<noteq> [] \<longrightarrow>
                  rest = []
                \<and> snd (Configure NewClient env ctx req resp) = []
                \<and> DataSourceData (fst (Configure NewClient env ctx req resp)) = DataSourceData resp
                \<and> ResourceData (fst (Configure NewClient env ctx req resp)) = ResourceData resp)"
  proof (cases "u = [] \<or> t = [] \<or> i = []")
    case True
    then have "HasError (empty_pass (resolve env (GetConfig req)) ?d0)"
      using read_ok res by (simp add: empty_pass_some)
    note run = Configure_empty [OF read_ok d1 this, of NewClient ctx]
    have "Diagnostics (fst (Configure NewClient env ctx req resp)) = ?d0 @ new @ []"
      using new res by (simp add: run)
    then show ?thesis
      using entries res run by (intro exI [of _ new] exI [of _ "[]"]) simp
  next
    case False
    then have nonempty: "u \<noteq> []" "t \<noteq> []" "i \<noteq> []" by simp_all
    then have d2: "empty_pass (u, t, i) ?d0 = ?d0"
      by (rule empty_pass_none)
    note run = Configure_construct [OF read_ok d1 res d2, of NewClient ctx]
    have "\<exists>rest. Diagnostics (fst (Configure NewClient env ctx req resp)) = ?d0 @ [] @ rest"
      using read_ok by (cases "NewClient u i t") (simp_all add: run AddError_clean)
    then show ?thesis
      using nonempty res by (auto intro!: exI [of _ "[]"])
  qed
qed

theorem emptiness_pass_gated_witness:
  "map (\<lambda>d. (Severity d, Path d, Summary d)) (Diagnostics (fst (Configure accepting_client Map.empty plain_ctx
        (request StringUnknown StringNull (StringValue ''@a:matrix.org'')) new_response))) =
     [(SeverityError, Some ''client_server_url'', ''Unknown Matrix Server URL'')]
 \<and> map (\<lambda>d. (Severity d, Path d, Summary d)) (Diagnostics (fst (Configure accepting_client Map.empty plain_ctx
        (request (StringValue ''https://matrix.org'') StringNull (StringValue [])) new_response))) =
     [(SeverityError, Some ''default_access_token'', ''Missing Default Access Token''),
      (SeverityError, Some ''default_user_id'', ''Missing Default UserID'')]
 \<and> snd (Configure accepting_client Map.empty plain_ctx
        (request (StringValue ''https://matrix.org'') StringNull (StringValue [])) new_response) = []"
proof -
  let ?U = "(request StringUnknown StringNull (StringValue ''@a:matrix.org''))"
  let ?E = "(request (StringValue ''https://matrix.org'') StringNull (StringValue []))"
  let ?resp = "new_response :: (string \<times> string \<times> string) ConfigureResponse"
  have h: "\<not> HasError (Append (Diagnostics ?resp) (GetDiagnostics ?U))"
      "\<not> HasError (Append (Diagnostics ?resp) (GetDiagnostics ?E))"
    by (simp_all add: new_response_def request_def HasError_def)
  have u: "HasError (unknown_pass (GetConfig ?U) (Append (Diagnostics ?resp) (GetDiagnostics ?U)))"
    by (simp add: new_response_def request_def HasError_def unknown_pass_def AddAttributeError_def)
  have e: "\<not> HasError (unknown_pass (GetConfig ?E) (Append (Diagnostics ?resp) (GetDiagnostics ?E)))"
    by (simp add: new_response_def request_def HasError_def unknown_pass_def AddAttributeError_def)
  have r: "resolve Map.empty (GetConfig ?E) = (''https://matrix.org'', [], [])"
    by (simp add: resolve_def Getenv_def request_def)
  have a: "map (\<lambda>d. (Severity d, Path d, Summary d))
      (Diagnostics (fst (Configure accepting_client Map.empty plain_ctx ?U new_response))) =
     [(SeverityError, Some ''client_server_url'', ''Unknown Matrix Server URL'')]"
    using emptiness_pass_gated [OF h(1), of accepting_client Map.empty plain_ctx] u
    by (simp add: new_response_def request_def unknown_pass_def AddAttributeError_def)
  have b: "map (\<lambda>d. (Severity d, Path d, Summary d))
      (Diagnostics (fst (Configure accepting_client Map.empty plain_ctx ?E new_response))) =
     [(SeverityError, Some ''default_access_token'', ''Missing Default Access Token''),
      (SeverityError, Some ''default_user_id'', ''Missing Default UserID'')]
    \<and> snd (Configure accepting_client Map.empty plain_ctx ?E new_response) = []"
    using emptiness_pass_gated [OF h(2), of accepting_client Map.empty plain_ctx] e r
    by (auto simp: new_response_def request_def)
  show ?thesis using a b by simp
qed

text \<open>
  C4. For every request, environment, logging context and client constructor, and every
  response that comes in with both data slots empty, the cycle ends in exactly one of two
  ways: the diagnostics hold an error and both slots are still empty, or the diagnostics
  hold no error and both slots hold the client that the constructor returned for the
  resolved values. An error diagnostic and a filled slot never occur together.
\<close>

theorem errors_or_client:
  assumes "DataSourceData resp = None" and "ResourceData resp = None"
  shows "((HasError (Diagnostics (fst (Configure NewClient env ctx req resp)))
          \<and> DataSourceData (fst (Configure NewClient env ctx req resp)) = None
          \<and> ResourceData (fst (Configure NewClient env ctx req resp)) = None)
        \<or> (\<not> HasError (Diagnostics (fst (Configure NewClient env ctx req resp)))
          \<and> (\<exists>c. NewClient (fst (resolve env (GetConfig req)))
                     (snd (snd (resolve env (GetConfig req))))
                     (fst (snd (resolve env (GetConfig req)))) = Inr c
               \<and> DataSourceData (fst (Configure NewClient env ctx req resp)) = Some c
               \<and> ResourceData (fst (Configure NewClient env ctx req resp)) = Some c)))
     \<and> \<not> (HasError (Diagnostics (fst (Configure NewClient env ctx req resp)))
          \<and> (DataSourceData (fst (Configure NewClient env ctx req resp)) \<noteq> None
             \<or> ResourceData (fst (Configure NewClient env ctx req resp)) \<noteq> None))"
proof -
  obtain u t i where res: "resolve env (GetConfig req) = (u, t, i)"
    by (cases "resolve env (GetConfig req)") auto
  from Configure_outcome [OF res, of NewClient ctx resp] show ?thesis
  proof
    assume "HasError (Diagnostics (fst (Configure NewClient env ctx req resp)))
        \<and> DataSourceData (fst (Configure NewClient env ctx req resp)) = DataSourceData resp
        \<and> ResourceData (fst (Configure NewClient env ctx req resp)) = ResourceData resp"
    then show ?thesis using assms by simp
  next
    assume "\<not> HasError (Append (Diagnostics resp) (GetDiagnostics req))
        \<and> (\<exists>c. NewClient u i t = Inr c
             \<and> Configure NewClient env ctx req resp =
                 (resp\<lparr>Diagnostics := Append (Diagnostics resp) (GetDiagnostics req),
                       DataSourceData := Some c, ResourceData := Some c\<rparr>,
                  logging_calls (u, t, i) @
                  [Emitted LevelDebug ''Creating Matrix client''
                     (render (logging_context ctx (u, t, i)) []),
                   Constructed u i t,
                   Emitted LevelInfo ''Configured Matrix client''
                     (render (logging_context ctx (u, t, i)) [(''success'', LBool True)])]))"
    then show ?thesis using res by auto
  qed
qed

theorem errors_or_client_witness:
  "DataSourceData (new_response :: (string \<times> string \<times> string) ConfigureResponse) = None
 \<and> ResourceData (new_response :: (string \<times> string \<times> string) ConfigureResponse) = None
 \<and> \<not> HasError (Diagnostics (fst (Configure accepting_client Map.empty plain_ctx
      (request (StringValue ''https://matrix.org'') (StringValue ''abc'') (StringValue ''@a:matrix.org'')) new_response)))
 \<and> DataSourceData (fst (Configure accepting_client Map.empty plain_ctx
      (request (StringValue ''https://matrix.org'') (StringValue ''abc'') (StringValue ''@a:matrix.org'')) new_response)) = Some (''https://matrix.org'', ''@a:matrix.org'', ''abc'')
 \<and> ResourceData (fst (Configure accepting_client Map.empty plain_ctx
      (request (StringValue ''https://matrix.org'') (StringValue ''abc'') (StringValue ''@a:matrix.org'')) new_response)) = Some (''https://matrix.org'', ''@a:matrix.org'', ''abc'')
 \<and> HasError (Diagnostics (fst (Configure accepting_client Map.empty plain_ctx
      (request StringUnknown (StringValue ''abc'') (StringValue ''@a:matrix.org'')) new_response)))
 \<and> DataSourceData (fst (Configure accepting_client Map.empty plain_ctx
      (request StringUnknown (StringValue ''abc'') (StringValue ''@a:matrix.org'')) new_response)) = None
 \<and> ResourceData (fst (Configure accepting_client Map.empty plain_ctx
      (request StringUnknown (StringValue ''abc'') (StringValue ''@a:matrix.org'')) new_response)) = None"
proof -
  let ?A = "(request (StringValue ''https://matrix.org'') (StringValue ''abc'') (StringValue ''@a:matrix.org''))"
  let ?B = "(request StringUnknown (StringValue ''abc'') (StringValue ''@a:matrix.org''))"
  have h1: "DataSourceData (new_response :: (string \<times> string \<times> string) ConfigureResponse) = None"
    and h2: "ResourceData (new_response :: (string \<times> string \<times> string) ConfigureResponse) = None"
    by (simp_all add: new_response_def)
  have a: "\<not> HasError (Diagnostics (fst (Configure accepting_client Map.empty plain_ctx ?A new_response)))"
    by (simp add: Configure_def new_response_def HasError_def unknown_pass_def resolve_def Getenv_def empty_pass_def logging_calls_def AddError_def AddAttributeError_def Let_def accepting_client_def failing_client_def plain_ctx_def request_def)
  have b: "HasError (Diagnostics (fst (Configure accepting_client Map.empty plain_ctx ?B new_response)))"
    by (simp add: Configure_def new_response_def HasError_def unknown_pass_def resolve_def Getenv_def empty_pass_def logging_calls_def AddError_def AddAttributeError_def Let_def accepting_client_def failing_client_def plain_ctx_def request_def)
  have r: "resolve Map.empty (GetConfig ?A) = (''https://matrix.org'', ''abc'', ''@a:matrix.org'')"
    by (simp add: resolve_def request_def)
  show ?thesis
    using errors_or_client [OF h1 h2, of accepting_client Map.empty plain_ctx ?A]
      errors_or_client [OF h1 h2, of accepting_client Map.empty plain_ctx ?B]
      h1 h2 a b r
    by (auto simp: accepting_client_def)
qed

text \<open>
  C5. When the cycle calls the client constructor and the constructor returns an error,
  the diagnostics are those of the read followed by exactly one entry: an error with no
  attribute path, whose detail ends with the constructor's message as it is. Both data
  slots keep their old content, the construction is the only one of the run and it is the
  last call of the run (no success message follows).
\<close>

theorem construction_failure:
  assumes attempted: "Constructed u i t \<in> set (snd (Configure NewClient env ctx req resp))"
      and failed: "NewClient u i t = Inl err"
  shows "\<exists>d. Diagnostics (fst (Configure NewClient env ctx req resp)) =
              Append (Diagnostics resp) (GetDiagnostics req) @ [d]
     \<and> Severity d = SeverityError \<and> Path d = None
     \<and> Summary d = ''Unable to Create Matrix API Client''
     \<and> (\<exists>prefix. Detail d = prefix @ err)
     \<and> DataSourceData (fst (Configure NewClient env ctx req resp)) = DataSourceData resp
     \<and> ResourceData (fst (Configure NewClient env ctx req resp)) = ResourceData resp
     \<and> filter is_construction (snd (Configure NewClient env ctx req resp)) = [Constructed u i t]
     \<and> last (snd (Configure NewClient env ctx req resp)) = Constructed u i t"
proof -
  let ?d0 = "Append (Diagnostics resp) (GetDiagnostics req)"
  from Constructed_in_calls [OF attempted]
  have clean: "\<not> HasError ?d0"
    and d1: "unknown_pass (GetConfig req) ?d0 = ?d0"
    and d2': "empty_pass (resolve env (GetConfig req)) ?d0 = ?d0"
    and res: "resolve env (GetConfig req) = (u, t, i)"
    by blast+
  from d2' res have d2: "empty_pass (u, t, i) ?d0 = ?d0" by simp
  note run = Configure_construct [OF clean d1 res d2, of NewClient ctx]
  have fst_run: "fst (Configure NewClient env ctx req resp) =
      resp\<lparr>Diagnostics := ?d0 @ [Diagnostic SeverityError None
         ''Unable to Create Matrix API Client''
         ((''An unexpected error occurred when creating the Matrix API client. '' @
           ''If the error is not clear, please contact the provider developers.'' @
           [CHR 0x0A, CHR 0x0A] @ ''Matrix Client Error: '') @ err)]\<rparr>"
    using failed clean by (simp add: run AddError_clean)
  have snd_run: "snd (Configure NewClient env ctx req resp) =
      logging_calls (u, t, i) @
      [Emitted LevelDebug ''Creating Matrix client'' (render (logging_context ctx (u, t, i)) []),
       Constructed u i t]"
    using failed by (simp add: run)
  have calls: "filter is_construction (snd (Configure NewClient env ctx req resp)) = [Constructed u i t]"
    "last (snd (Configure NewClient env ctx req resp)) = Constructed u i t"
    by (simp_all add: snd_run logging_calls_def)
  show ?thesis
    unfolding fst_run using calls by (simp del: append_assoc)
qed

theorem construction_failure_witness:
  "Constructed ''https://matrix.org'' ''@a:matrix.org'' ''abc'' \<in> set (snd (Configure failing_client Map.empty plain_ctx
      (request (StringValue ''https://matrix.org'') (StringValue ''abc'') (StringValue ''@a:matrix.org'')) new_response))
 \<and> map (\<lambda>d. (Severity d, Path d, Summary d)) (Diagnostics (fst (Configure failing_client Map.empty plain_ctx
      (request (StringValue ''https://matrix.org'') (StringValue ''abc'') (StringValue ''@a:matrix.org'')) new_response))) =
     [(SeverityError, None, ''Unable to Create Matrix API Client'')]
 \<and> (\<exists>prefix. map Detail (Diagnostics (fst (Configure failing_client Map.empty plain_ctx
      (request (StringValue ''https://matrix.org'') (StringValue ''abc'') (StringValue ''@a:matrix.org'')) new_response))) = [prefix @ ''parse error''])
 \<and> DataSourceData (fst (Configure failing_client Map.empty plain_ctx
      (request (StringValue ''https://matrix.org'') (StringValue ''abc'') (StringValue ''@a:matrix.org'')) new_response)) = None
 \<and> ResourceData (fst (Configure failing_client Map.empty plain_ctx
      (request (StringValue ''https://matrix.org'') (StringValue ''abc'') (StringValue ''@a:matrix.org'')) new_response)) = None"
proof -
  let ?A = "(request (StringValue ''https://matrix.org'') (StringValue ''abc'') (StringValue ''@a:matrix.org''))"
  have a: "Constructed ''https://matrix.org'' ''@a:matrix.org'' ''abc'' \<in>
      set (snd (Configure failing_client Map.empty plain_ctx ?A new_response))"
    by (simp add: Configure_def new_response_def HasError_def unknown_pass_def resolve_def Getenv_def empty_pass_def logging_calls_def AddError_def AddAttributeError_def Let_def accepting_client_def failing_client_def plain_ctx_def request_def)
  have f: "failing_client ''https://matrix.org'' ''@a:matrix.org'' ''abc'' = Inl ''parse error''"
    by (simp add: failing_client_def)
  show ?thesis
    using construction_failure [OF a f] a by (auto simp: new_response_def request_def)
qed

text \<open>
  C6. In a cycle that ends without an error diagnostic, the data-source slot and the
  resource slot hold the same client pointer, and that pointer is the result of the one
  call to the client constructor the run made: the list of calls holds a single
  construction.
\<close>

theorem one_shared_client:
  assumes success: "\<not> HasError (Diagnostics (fst (Configure NewClient env ctx req resp)))"
  shows "\<exists>c. DataSourceData (fst (Configure NewClient env ctx req resp)) = Some c
     \<and> ResourceData (fst (Configure NewClient env ctx req resp)) = Some c
     \<and> (\<exists>u i t. NewClient u i t = Inr c
          \<and> filter is_construction (snd (Configure NewClient env ctx req resp)) =
              [Constructed u i t])"
proof -
  obtain u t i where res: "resolve env (GetConfig req) = (u, t, i)"
    by (cases "resolve env (GetConfig req)") auto
  from Configure_outcome [OF res, of NewClient ctx resp] success
  obtain c where c: "NewClient u i t = Inr c"
    and run: "Configure NewClient env ctx req resp =
                 (resp\<lparr>Diagnostics := Append (Diagnostics resp) (GetDiagnostics req),
                       DataSourceData := Some c, ResourceData := Some c\<rparr>,
                  logging_calls (u, t, i) @
                  [Emitted LevelDebug ''Creating Matrix client''
                     (render (logging_context ctx (u, t, i)) []),
                   Constructed u i t,
                   Emitted LevelInfo ''Configured Matrix client''
                     (render (logging_context ctx (u, t, i)) [(''success'', LBool True)])])"
    by blast
  have "filter is_construction (snd (Configure NewClient env ctx req resp)) = [Constructed u i t]"
    by (simp add: run logging_calls_def)
  then show ?thesis using c run by auto
qed

theorem one_shared_client_witness:
  "\<not> HasError (Diagnostics (fst (Configure accepting_client Map.empty plain_ctx
      (request (StringValue ''https://matrix.org'') (StringValue ''abc'') (StringValue ''@a:matrix.org'')) new_response)))
 \<and> (\<exists>c. DataSourceData (fst (Configure accepting_client Map.empty plain_ctx
      (request (StringValue ''https://matrix.org'') (StringValue ''abc'') (StringValue ''@a:matrix.org'')) new_response)) = Some c
       \<and> ResourceData (fst (Configure accepting_client Map.empty plain_ctx
      (request (StringValue ''https://matrix.org'') (StringValue ''abc'') (StringValue ''@a:matrix.org'')) new_response)) = Some c)
 \<and> length (filter is_construction (snd (Configure accepting_client Map.empty plain_ctx
      (request (StringValue ''https://matrix.org'') (StringValue ''abc'') (StringValue ''@a:matrix.org'')) new_response))) = 1"
proof -
  have a: "\<not> HasError (Diagnostics (fst (Configure accepting_client Map.empty plain_ctx
      (request (StringValue ''https://matrix.org'') (StringValue ''abc'') (StringValue ''@a:matrix.org'')) new_response)))"
    by (simp add: Configure_def new_response_def HasError_def unknown_pass_def resolve_def Getenv_def empty_pass_def logging_calls_def AddError_def AddAttributeError_def Let_def accepting_client_def failing_client_def plain_ctx_def request_def)
  show ?thesis
    using one_shared_client [OF a] a by auto
qed

text \<open>
  C7. For any environment variable, and so for each of the three the cycle reads, a run
  with the variable unset and a run with the variable set to the empty string resolve the
  same values and return the same response and the same calls.
\<close>

theorem env_unset_is_env_empty:
  "resolve (env(k := None)) config = resolve (env(k \<mapsto> [])) config
 \<and> Configure NewClient (env(k := None)) ctx req resp =
     Configure NewClient (env(k \<mapsto> [])) ctx req resp"
proof -
  have g: "\<And>n. Getenv (env(k := None)) n = Getenv (env(k \<mapsto> [])) n"
    by (simp add: Getenv_def)
  have r: "\<And>c. resolve (env(k := None)) c = resolve (env(k \<mapsto> [])) c"
    unfolding resolve_def g ..
  show ?thesis
    unfolding Configure_def r by simp
qed

text \<open>
  C8. Scenario C. All three structured fields are null, the environment holds only
  \<^verbatim>\<open>MATRIX_CLIENT_SERVER_URL=https://x\<close>, the read adds no diagnostic and the response
  starts empty. The cycle leaves exactly two diagnostics, errors for the access token and
  for the user ID, and none for the server URL, which resolves to the value of the
  environment; the client constructor is not called and both slots stay empty.
\<close>

theorem scenario_C:
  "map (\<lambda>d. (Severity d, Path d, Summary d))
     (Diagnostics (fst (Configure NewClient [''MATRIX_CLIENT_SERVER_URL'' \<mapsto> ''https://x''] ctx
        (request StringNull StringNull StringNull) new_response)))
   = [(SeverityError, Some ''default_access_token'', ''Missing Default Access Token''),
      (SeverityError, Some ''default_user_id'', ''Missing Default UserID'')]
 \<and> fst (resolve [''MATRIX_CLIENT_SERVER_URL'' \<mapsto> ''https://x'']
        (GetConfig (request StringNull StringNull StringNull))) = ''https://x''
 \<and> snd (Configure NewClient [''MATRIX_CLIENT_SERVER_URL'' \<mapsto> ''https://x''] ctx
        (request StringNull StringNull StringNull) new_response) = []
 \<and> DataSourceData (fst (Configure NewClient [''MATRIX_CLIENT_SERVER_URL'' \<mapsto> ''https://x''] ctx
        (request StringNull StringNull StringNull) new_response)) = None
 \<and> ResourceData (fst (Configure NewClient [''MATRIX_CLIENT_SERVER_URL'' \<mapsto> ''https://x''] ctx
        (request StringNull StringNull StringNull) new_response)) = None"
  by (simp add: Configure_def new_response_def HasError_def unknown_pass_def resolve_def
        Getenv_def empty_pass_def AddAttributeError_def Let_def request_def)

text \<open>
  C9. In a cycle that ends without an error diagnostic, the calls of the run are the
  three attribute settings, then the mask on \<^verbatim>\<open>default_access_token\<close>, then the rest:
  no emission and no construction comes before the mask, and the emissions and the
  construction all come after it. Every emission of the run is made on the context built
  in lines 156 to 159 and shows \<^verbatim>\<open>***\<close> for the access token; it shows the resolved
  server URL and user ID as they are, provided the incoming context did not already mask
  these two names. The built context masks exactly the names the incoming context masked
  and the access token. In every context that descends from the built one by setting
  attributes or adding masks the access token stays masked, and every emission on it,
  whatever attributes are given with the call, shows \<^verbatim>\<open>***\<close> for it.
\<close>

theorem credential_masked_before_use:
  assumes success: "\<not> HasError (Diagnostics (fst (Configure NewClient env ctx req resp)))"
      and plain: "''client_server_url'' \<notin> set (mask_keys ctx)"
        "''default_user_id'' \<notin> set (mask_keys ctx)"
  shows "\<exists>before after.
       snd (Configure NewClient env ctx req resp) =
         before @ Masked [''default_access_token''] # after
     \<and> \<not> list_ex is_emission before \<and> \<not> list_ex is_construction before
     \<and> list_ex is_emission after \<and> list_ex is_construction after
     \<and> (\<forall>c\<in>set after. is_emission c \<longrightarrow>
            (\<exists>l m additional. c = Emitted l m
               (render (logging_context ctx (resolve env (GetConfig req))) additional))
          \<and> shown c ''default_access_token'' = Some (LString ''***'')
          \<and> shown c ''client_server_url'' = Some (LString (fst (resolve env (GetConfig req))))
          \<and> shown c ''default_user_id'' =
              Some (LString (snd (snd (resolve env (GetConfig req))))))
     \<and> (\<forall>ops additional.
            ''default_access_token'' \<in>
              set (mask_keys (derive (logging_context ctx (resolve env (GetConfig req))) ops))
          \<and> map_of (render (derive (logging_context ctx (resolve env (GetConfig req))) ops)
                additional) ''default_access_token'' = Some (LString ''***''))
     \<and> mask_keys (logging_context ctx (resolve env (GetConfig req))) =
         mask_keys ctx @ [''default_access_token'']"
proof -
  obtain u t i where res: "resolve env (GetConfig req) = (u, t, i)"
    by (cases "resolve env (GetConfig req)") auto
  let ?lc = "logging_context ctx (u, t, i)"
  let ?before = "[FieldSet ''client_server_url'' (LString u),
       FieldSet ''default_access_token'' (LString t),
       FieldSet ''default_user_id'' (LString i)]"
  let ?after = "[Emitted LevelDebug ''Creating Matrix client'' (render ?lc []),
       Constructed u i t,
       Emitted LevelInfo ''Configured Matrix client'' (render ?lc [(''success'', LBool True)])]"
  from Configure_outcome [OF res, of NewClient ctx resp] success
  have calls: "snd (Configure NewClient env ctx req resp) =
      ?before @ Masked [''default_access_token''] # ?after"
    by (auto simp: logging_calls_def)
  have order: "\<not> list_ex is_emission ?before" "\<not> list_ex is_construction ?before"
      "list_ex is_emission ?after" "list_ex is_construction ?after"
    by simp_all
  have shown_after: "\<forall>c\<in>set ?after. is_emission c \<longrightarrow>
            (\<exists>l m additional. c = Emitted l m (render ?lc additional))
          \<and> shown c ''default_access_token'' = Some (LString ''***'')
          \<and> shown c ''client_server_url'' = Some (LString u)
          \<and> shown c ''default_user_id'' = Some (LString i)"
    using logging_context_shows [OF plain, of "[]" u t i]
      logging_context_shows [OF plain, of "[(''success'', LBool True)]" u t i]
    by simp blast
  have lineage: "\<forall>ops additional.
            ''default_access_token'' \<in> set (mask_keys (derive ?lc ops))
          \<and> map_of (render (derive ?lc ops) additional) ''default_access_token'' =
              Some (LString ''***'')"
    using derive_keeps [OF conjunct1 [OF logging_context_masks] conjunct2 [OF logging_context_masks]]
      derived_shows_mask by blast
  have keys: "mask_keys ?lc = mask_keys ctx @ [''default_access_token'']"
    by (simp add: logging_context_def SetField_def MaskFieldValuesWithFieldKeys_def Let_def)
  show ?thesis
    unfolding res fst_conv snd_conv
    using calls order shown_after lineage keys
    by (intro exI [of _ ?before] exI [of _ ?after]) blast
qed

theorem credential_masked_before_use_witness:
  "\<not> HasError (Diagnostics (fst (Configure accepting_client Map.empty plain_ctx
      (request (StringValue ''https://matrix.org'') (StringValue ''abc'') (StringValue ''@a:matrix.org'')) new_response)))
 \<and> ''client_server_url'' \<notin> set (mask_keys plain_ctx)
 \<and> ''default_user_id'' \<notin> set (mask_keys plain_ctx)
 \<and> snd (Configure accepting_client Map.empty plain_ctx
      (request (StringValue ''https://matrix.org'') (StringValue ''abc'') (StringValue ''@a:matrix.org'')) new_response) =
     [FieldSet ''client_server_url'' (LString ''https://matrix.org''),
      FieldSet ''default_access_token'' (LString ''abc''),
      FieldSet ''default_user_id'' (LString ''@a:matrix.org''),
      Masked [''default_access_token''],
      Emitted LevelDebug ''Creating Matrix client''
        [(''client_server_url'', LString ''https://matrix.org''),
         (''default_access_token'', LString ''***''),
         (''default_user_id'', LString ''@a:matrix.org'')],
      Constructed ''https://matrix.org'' ''@a:matrix.org'' ''abc'',
      Emitted LevelInfo ''Configured Matrix client''
        [(''client_server_url'', LString ''https://matrix.org''),
         (''default_access_token'', LString ''***''),
         (''default_user_id'', LString ''@a:matrix.org''),
         (''success'', LBool True)]]
 \<and> map_of (render
       (derive (logging_context plain_ctx (resolve Map.empty (GetConfig (request (StringValue ''https://matrix.org'') (StringValue ''abc'') (StringValue ''@a:matrix.org'')))))
          [OpSetField ''default_access_token'' (LString ''def''), OpMask [''default_user_id'']])
       [(''default_access_token'', LString ''ghi'')]) ''default_access_token'' =
     Some (LString ''***'')"
proof -
  let ?A = "(request (StringValue ''https://matrix.org'') (StringValue ''abc'') (StringValue ''@a:matrix.org''))"
  have a: "\<not> HasError (Diagnostics (fst (Configure accepting_client Map.empty plain_ctx ?A new_response)))"
    by (simp add: Configure_def new_response_def HasError_def unknown_pass_def resolve_def Getenv_def empty_pass_def logging_calls_def AddError_def AddAttributeError_def Let_def accepting_client_def failing_client_def plain_ctx_def request_def)
  have p: "''client_server_url'' \<notin> set (mask_keys plain_ctx)"
    "''default_user_id'' \<notin> set (mask_keys plain_ctx)"
    by (simp_all add: plain_ctx_def)
  have calls: "snd (Configure accepting_client Map.empty plain_ctx ?A new_response) =
     [FieldSet ''client_server_url'' (LString ''https://matrix.org''),
      FieldSet ''default_access_token'' (LString ''abc''),
      FieldSet ''default_user_id'' (LString ''@a:matrix.org''),
      Masked [''default_access_token''],
      Emitted LevelDebug ''Creating Matrix client''
        [(''client_server_url'', LString ''https://matrix.org''),
         (''default_access_token'', LString ''***''),
         (''default_user_id'', LString ''@a:matrix.org'')],
      Constructed ''https://matrix.org'' ''@a:matrix.org'' ''abc'',
      Emitted LevelInfo ''Configured Matrix client''
        [(''client_server_url'', LString ''https://matrix.org''),
         (''default_access_token'', LString ''***''),
         (''default_user_id'', LString ''@a:matrix.org''),
         (''success'', LBool True)]]"
    by (simp add: Configure_def new_response_def HasError_def unknown_pass_def resolve_def Getenv_def empty_pass_def logging_calls_def AddError_def AddAttributeError_def Let_def accepting_client_def failing_client_def plain_ctx_def request_def
          logging_context_def SetField_def MaskFieldValuesWithFieldKeys_def render_def)
  from credential_masked_before_use [OF a p]
  have "map_of (render
       (derive (logging_context plain_ctx (resolve Map.empty (GetConfig ?A)))
          [OpSetField ''default_access_token'' (LString ''def''), OpMask [''default_user_id'']])
       [(''default_access_token'', LString ''ghi'')]) ''default_access_token'' =
     Some (LString ''***'')"
    by blast
  then show ?thesis using a p calls by simp
qed

text \<open>
  C10, as amended. In a cycle whose configuration was read without an error diagnostic
  and in which no structured field is unknown (so that the emptiness pass is reached): if
  a structured field is concrete and equal to the empty string, the environment is not
  consulted for that field, whatever it holds. The resolved value is the empty string, the
  diagnostics of the cycle hold the missing-value error that carries the attribute path of
  that field, and the cycle fails: it makes no call to the logger or to the client
  constructor and leaves both data slots as they were.
\<close>

theorem empty_value_is_missing:
  assumes read_ok: "\<not> HasError (Append (Diagnostics resp) (GetDiagnostics req))"
      and known: "\<not> IsUnknown (ClientServerUrl (GetConfig req))"
        "\<not> IsUnknown (DefaultAccessToken (GetConfig req))"
        "\<not> IsUnknown (DefaultUserID (GetConfig req))"
  shows "(ClientServerUrl (GetConfig req) = StringValue [] \<longrightarrow>
            fst (resolve env (GetConfig req)) = []
          \<and> (SeverityError, Some ''client_server_url'', ''Missing Matrix Server URL'')
              \<in> set (map (\<lambda>d. (Severity d, Path d, Summary d))
                   (Diagnostics (fst (Configure NewClient env ctx req resp)))))
     \<and> (DefaultAccessToken (GetConfig req) = StringValue [] \<longrightarrow>
            fst (snd (resolve env (GetConfig req))) = []
          \<and> (SeverityError, Some ''default_access_token'', ''Missing Default Access Token'')
              \<in> set (map (\<lambda>d. (Severity d, Path d, Summary d))
                   (Diagnostics (fst (Configure NewClient env ctx req resp)))))
     \<and> (DefaultUserID (GetConfig req) = StringValue [] \<longrightarrow>
            snd (snd (resolve env (GetConfig req))) = []
          \<and> (SeverityError, Some ''default_user_id'', ''Missing Default UserID'')
              \<in> set (map (\<lambda>d. (Severity d, Path d, Summary d))
                   (Diagnostics (fst (Configure NewClient env ctx req resp)))))
     \<and> (ClientServerUrl (GetConfig req) = StringValue [] \<or>
         DefaultAccessToken (GetConfig req) = StringValue [] \<or>
         DefaultUserID (GetConfig req) = StringValue [] \<longrightarrow>
            HasError (Diagnostics (fst (Configure NewClient env ctx req resp)))
          \<and> snd (Configure NewClient env ctx req resp) = []
          \<and> DataSourceData (fst (Configure NewClient env ctx req resp)) = DataSourceData resp
          \<and> ResourceData (fst (Configure NewClient env ctx req resp)) = ResourceData resp)"
proof -
  let ?d0 = "Append (Diagnostics resp) (GetDiagnostics req)"
  let ?e = "\<lambda>d. (Severity d, Path d, Summary d)"
  obtain u t i where res: "resolve env (GetConfig req) = (u, t, i)"
    by (cases "resolve env (GetConfig req)") auto
  have d1: "unknown_pass (GetConfig req) ?d0 = ?d0"
    using known by (rule unknown_pass_none)
  have u: "ClientServerUrl (GetConfig req) = StringValue [] \<Longrightarrow> u = []"
    and t: "DefaultAccessToken (GetConfig req) = StringValue [] \<Longrightarrow> t = []"
    and i: "DefaultUserID (GetConfig req) = StringValue [] \<Longrightarrow> i = []"
    using res by (simp_all add: resolve_def)
  from empty_pass_entries [OF read_ok, of u t i]
  obtain new where new: "empty_pass (u, t, i) ?d0 = ?d0 @ new"
    and entries: "map ?e new =
         (if u = [] then [(SeverityError, Some ''client_server_url'', ''Missing Matrix Server URL'')] else []) @
         (if t = [] then [(SeverityError, Some ''default_access_token'', ''Missing Default Access Token'')] else []) @
         (if i = [] then [(SeverityError, Some ''default_user_id'', ''Missing Default UserID'')] else [])"
    by blast
  have blocked: "Configure NewClient env ctx req resp = (resp\<lparr>Diagnostics := ?d0 @ new\<rparr>, [])
      \<and> HasError (?d0 @ new)"
    if "u = [] \<or> t = [] \<or> i = []"
  proof -
    from that have "HasError (empty_pass (resolve env (GetConfig req)) ?d0)"
      using read_ok res by (simp add: empty_pass_some)
    from Configure_empty [OF read_ok d1 this, of NewClient ctx] this
    show ?thesis using res new by simp
  qed
  have in_u: "(SeverityError, Some ''client_server_url'', ''Missing Matrix Server URL'')
      \<in> set (map ?e (?d0 @ new))" if "u = []"
    using that entries by simp
  have in_t: "(SeverityError, Some ''default_access_token'', ''Missing Default Access Token'')
      \<in> set (map ?e (?d0 @ new))" if "t = []"
    using that entries by simp
  have in_i: "(SeverityError, Some ''default_user_id'', ''Missing Default UserID'')
      \<in> set (map ?e (?d0 @ new))" if "i = []"
    using that entries by simp
  show ?thesis
    using u t i blocked in_u in_t in_i res by auto
qed

theorem empty_value_is_missing_witness:
  "resolve [''MATRIX_CLIENT_SERVER_URL'' \<mapsto> ''https://x'', ''MATRIX_DEFAULT_ACCESS_TOKEN'' \<mapsto> ''abc'', ''MATRIX_DEFAULT_USERID'' \<mapsto> ''@a:matrix.org'']
     (GetConfig (request (StringValue []) (StringValue []) (StringValue []))) = ([], [], [])
 \<and> map (\<lambda>d. (Severity d, Path d, Summary d)) (Diagnostics (fst (Configure accepting_client 
        [''MATRIX_CLIENT_SERVER_URL'' \<mapsto> ''https://x'', ''MATRIX_DEFAULT_ACCESS_TOKEN'' \<mapsto> ''abc'', ''MATRIX_DEFAULT_USERID'' \<mapsto> ''@a:matrix.org'']
        plain_ctx
        (request (StringValue []) (StringValue []) (StringValue [])) new_response))) =
     [(SeverityError, Some ''client_server_url'', ''Missing Matrix Server URL''),
      (SeverityError, Some ''default_access_token'', ''Missing Default Access Token''),
      (SeverityError, Some ''default_user_id'', ''Missing Default UserID'')]
 \<and> HasError (Diagnostics (fst (Configure accepting_client 
        [''MATRIX_CLIENT_SERVER_URL'' \<mapsto> ''https://x'', ''MATRIX_DEFAULT_ACCESS_TOKEN'' \<mapsto> ''abc'', ''MATRIX_DEFAULT_USERID'' \<mapsto> ''@a:matrix.org'']
        plain_ctx
        (request (StringValue []) (StringValue []) (StringValue [])) new_response)))
 \<and> snd (Configure accepting_client 
        [''MATRIX_CLIENT_SERVER_URL'' \<mapsto> ''https://x'', ''MATRIX_DEFAULT_ACCESS_TOKEN'' \<mapsto> ''abc'', ''MATRIX_DEFAULT_USERID'' \<mapsto> ''@a:matrix.org'']
        plain_ctx
        (request (StringValue []) (StringValue []) (StringValue [])) new_response) = []"
proof -
  let ?Z = "(request (StringValue []) (StringValue []) (StringValue []))"
  let ?env = "[''MATRIX_CLIENT_SERVER_URL'' \<mapsto> ''https://x'', ''MATRIX_DEFAULT_ACCESS_TOKEN'' \<mapsto> ''abc'', ''MATRIX_DEFAULT_USERID'' \<mapsto> ''@a:matrix.org'']"
  let ?resp = "new_response :: (string \<times> string \<times> string) ConfigureResponse"
  have h: "\<not> HasError (Append (Diagnostics ?resp) (GetDiagnostics ?Z))"
    by (simp add: new_response_def request_def HasError_def)
  have k: "\<not> IsUnknown (ClientServerUrl (GetConfig ?Z))"
    "\<not> IsUnknown (DefaultAccessToken (GetConfig ?Z))"
    "\<not> IsUnknown (DefaultUserID (GetConfig ?Z))"
    by (simp_all add: request_def)
  have z: "ClientServerUrl (GetConfig ?Z) = StringValue []"
    "DefaultAccessToken (GetConfig ?Z) = StringValue []"
    "DefaultUserID (GetConfig ?Z) = StringValue []"
    by (simp_all add: request_def)
  have m: "map (\<lambda>d. (Severity d, Path d, Summary d))
      (Diagnostics (fst (Configure accepting_client ?env plain_ctx ?Z new_response))) =
     [(SeverityError, Some ''client_server_url'', ''Missing Matrix Server URL''),
      (SeverityError, Some ''default_access_token'', ''Missing Default Access Token''),
      (SeverityError, Some ''default_user_id'', ''Missing Default UserID'')]"
    by (simp add: Configure_def new_response_def HasError_def unknown_pass_def resolve_def Getenv_def empty_pass_def logging_calls_def AddError_def AddAttributeError_def Let_def accepting_client_def failing_client_def plain_ctx_def request_def)
  show ?thesis
    using empty_value_is_missing [OF h k, of ?env accepting_client plain_ctx] m z
    by (cases "resolve ?env (GetConfig ?Z)") simp
qed

text \<open>
  The claim without the condition on the other fields fails. Here the server URL is
  concrete and empty and the access token is unknown: the cycle ends after the
  unknown-value pass with the one diagnostic of the access token, and none names the
  server URL.
\<close>

theorem empty_value_with_unknown_field_counterexample:
  "ClientServerUrl (GetConfig (request (StringValue []) StringUnknown (StringValue ''@a:matrix.org''))) = StringValue []
 \<and> map Path (Diagnostics (fst (Configure accepting_client [''MATRIX_CLIENT_SERVER_URL'' \<mapsto> ''https://x''] plain_ctx
        (request (StringValue []) StringUnknown (StringValue ''@a:matrix.org'')) new_response))) = [Some ''default_access_token'']
 \<and> map Summary (Diagnostics (fst (Configure accepting_client [''MATRIX_CLIENT_SERVER_URL'' \<mapsto> ''https://x''] plain_ctx
        (request (StringValue []) StringUnknown (StringValue ''@a:matrix.org'')) new_response))) = [''Unknown Default Access Token'']
 \<and> Some ''client_server_url'' \<notin> set (map Path (Diagnostics (fst (Configure accepting_client [''MATRIX_CLIENT_SERVER_URL'' \<mapsto> ''https://x''] plain_ctx
        (request (StringValue []) StringUnknown (StringValue ''@a:matrix.org'')) new_response))))"
  by (simp add: Configure_def new_response_def HasError_def unknown_pass_def resolve_def Getenv_def empty_pass_def logging_calls_def AddError_def AddAttributeError_def Let_def accepting_client_def failing_client_def plain_ctx_def request_def)

end
